theory Spec2Isabelle
  imports Complex_Main "HOL-Library.Multiset"
begin

section \<open>FitTrack server: the request handlers of server.js over an explicit store\<close>

text \<open>
  The handlers of \<^verbatim>\<open>server.js\<close> read the whole document with \<^verbatim>\<open>readDb\<close>, change it in
  memory and write it back with \<^verbatim>\<open>writeDb\<close>. Here a handler is a function from the
  document read to the response sent and the document on disk afterwards; a handler
  that returns before \<^verbatim>\<open>writeDb\<close> returns the document it was given.

  Modelling boundaries, all on the side of the inputs:
  \<^item> a string is a list of code units below 256 (\<^typ>\<open>char\<close>), with \<^verbatim>\<open>trim\<close> and
    \<^verbatim>\<open>toLowerCase\<close> as the language defines them on that range;
  \<^item> a handler is modelled on the body as parsed: a JSON number is the rational that
    the parsed double is (the rounding of a literal is the work of \<^verbatim>\<open>JSON.parse\<close>, done
    before the handler runs); a number literal outside the double range is not
    modelled, so \<^verbatim>\<open>Infinity\<close> and \<^verbatim>\<open>NaN\<close> arise only from \<^verbatim>\<open>Number(...)\<close>;
  \<^item> a request body is a JSON object, and the document holds two arrays of objects;
  \<^item> the file system does not fail.
\<close>

subsection \<open>JSON values and objects\<close>

datatype json =
    JNull
  | JBool bool
  | JNum rat
  | JStr string
  | JArr "json list"
  | JObj "(string \<times> json) list"

text \<open>
  An object is the list of its properties in creation order. A property read that
  finds nothing is \<^verbatim>\<open>undefined\<close>, here \<^term>\<open>None\<close>. Should a key be listed twice, the
  later entry is the value, as \<^verbatim>\<open>JSON.parse\<close> has it.
\<close>

type_synonym obj = "(string \<times> json) list"

fun field :: "obj \<Rightarrow> string \<Rightarrow> json option" where
  "field [] k = None"
| "field (p # ps) k =
     (case field ps k of
        Some v \<Rightarrow> Some v
      | None \<Rightarrow> (if fst p = k then Some (snd p) else None))"

text \<open>\<^verbatim>\<open>o[k] = v\<close>: an existing property keeps its place, a new one goes last.\<close>

definition setField :: "string \<Rightarrow> json \<Rightarrow> obj \<Rightarrow> obj" where
  "setField k v ps =
     (if k \<in> fst ` set ps then map (\<lambda>p. if fst p = k then (k, v) else p) ps
      else ps @ [(k, v)])"

text \<open>\<^verbatim>\<open>const { k: _, ...rest } = o\<close>: every property but \<open>k\<close>.\<close>

definition delField :: "string \<Rightarrow> obj \<Rightarrow> obj" where
  "delField k ps = filter (\<lambda>p. fst p \<noteq> k) ps"

text \<open>\<^verbatim>\<open>{ ...a, ...b }\<close> once \<open>a\<close> has been copied: the properties of \<open>b\<close> are assigned in order.\<close>

definition spread :: "obj \<Rightarrow> obj \<Rightarrow> obj" where
  "spread a b = fold (\<lambda>p acc. setField (fst p) (snd p) acc) b a"

function decimal :: "nat \<Rightarrow> string" where
  "decimal n =
     (if n < 10 then [char_of (48 + n)]
      else decimal (n div 10) @ [char_of (48 + n mod 10)])"
  by pat_completeness auto
termination
  by (relation "measure id") auto

text \<open>
  The own enumerable properties that a spread copies: those of an object; the indices
  of an array or of a string; none for \<^verbatim>\<open>undefined\<close>, \<^verbatim>\<open>null\<close>, booleans and numbers.
\<close>

fun ownProps :: "json option \<Rightarrow> obj" where
  "ownProps (Some (JObj ps)) = ps"
| "ownProps (Some (JArr xs)) = zip (map decimal [0..<length xs]) xs"
| "ownProps (Some (JStr s)) = zip (map decimal [0..<length s]) (map (\<lambda>c. JStr [c]) s)"
| "ownProps _ = []"

fun truthy :: "json option \<Rightarrow> bool" where
  "truthy None = False"
| "truthy (Some JNull) = False"
| "truthy (Some (JBool b)) = b"
| "truthy (Some (JNum r)) = (r \<noteq> 0)"
| "truthy (Some (JStr s)) = (s \<noteq> [])"
| "truthy (Some (JArr xs)) = True"
| "truthy (Some (JObj ps)) = True"

text \<open>\<^verbatim>\<open>a || b\<close> on a property read.\<close>

definition orElse :: "json option \<Rightarrow> json \<Rightarrow> json" where
  "orElse v d = (case v of None \<Rightarrow> d | Some x \<Rightarrow> (if truthy v then x else d))"

subsection \<open>Strings\<close>

definition isWhiteSpace :: "char \<Rightarrow> bool" where
  "isWhiteSpace c = ((of_char c :: nat) \<in> {9, 10, 11, 12, 13, 32, 160})"

definition trim :: "string \<Rightarrow> string" where
  "trim s = rev (dropWhile isWhiteSpace (rev (dropWhile isWhiteSpace s)))"

definition lowerChar :: "char \<Rightarrow> char" where
  "lowerChar c =
     (let n = (of_char c :: nat)
      in if (65 \<le> n \<and> n \<le> 90) \<or> (192 \<le> n \<and> n \<le> 222 \<and> n \<noteq> 215)
         then char_of (n + 32) else c)"

definition toLowerCase :: "string \<Rightarrow> string" where
  "toLowerCase s = map lowerChar s"

text \<open>
  \<^verbatim>\<open>v.trim()\<close> on a property read: a string has the method, on every other value the
  call raises a TypeError (\<^term>\<open>None\<close>).
\<close>

fun callTrim :: "json option \<Rightarrow> string option" where
  "callTrim (Some (JStr s)) = Some (trim s)"
| "callTrim _ = None"

text \<open>\<^verbatim>\<open>v ? v.trim() : ''\<close>.\<close>

definition trimOrEmpty :: "json option \<Rightarrow> string option" where
  "trimOrEmpty v = (if truthy v then callTrim v else Some [])"

subsection \<open>Validation\<close>

text \<open>
  \<^verbatim>\<open>/^[a-z0-9](\.?[a-z0-9]){1,}@gmail\.com$/\<close>. A dot is no alphanumeric, so a string
  has at most one reading as a sequence of groups \<^verbatim>\<open>\.?[a-z0-9]\<close>, and \<open>@\<close> occurs in no
  group, so the suffix of the pattern is the last ten code units.
\<close>

definition isAlnum :: "char \<Rightarrow> bool" where
  "isAlnum c =
     (let n = (of_char c :: nat) in (97 \<le> n \<and> n \<le> 122) \<or> (48 \<le> n \<and> n \<le> 57))"

fun dotGroups :: "string \<Rightarrow> bool" where
  "dotGroups [] = True"
| "dotGroups [c] = isAlnum c"
| "dotGroups (c # d # cs) =
     (if isAlnum c then dotGroups (d # cs)
      else c = CHR ''.'' \<and> isAlnum d \<and> dotGroups cs)"

definition localPart :: "string \<Rightarrow> bool" where
  "localPart s = (case s of [] \<Rightarrow> False | c # cs \<Rightarrow> isAlnum c \<and> cs \<noteq> [] \<and> dotGroups cs)"

definition isValidGmail :: "string \<Rightarrow> bool" where
  "isValidGmail email =
     (let n = length email
      in 10 \<le> n \<and> drop (n - 10) email = ''@gmail.com'' \<and> localPart (take (n - 10) email))"

subsection \<open>Numbers, dates and the parts of the runtime left open\<close>

datatype number = NaN | Fin rat | PosInf | NegInf

datatype date = InvalidDate | TimeValue int

text \<open>
  What the handlers take from the language and from bcryptjs without the source saying
  how it is computed. A theorem about a handler holds for every such runtime.
  \<^item> \<open>StringToNumber\<close>: \<^verbatim>\<open>Number(s)\<close> on a string;
  \<^item> \<open>ObjectToNumber\<close>: \<^verbatim>\<open>Number(v)\<close> on an array or object, \<^term>\<open>None\<close> when the
    conversion to a primitive raises a TypeError;
  \<^item> \<open>DateOf\<close>: the time value of \<^verbatim>\<open>new Date(v)\<close>, \<^term>\<open>None\<close> when the conversion raises;
  \<^item> \<open>EngineSort\<close>: \<^verbatim>\<open>xs.sort(c)\<close> where the language leaves the order to the engine,
    that is for a comparator \<open>c\<close> that is no consistent ordering of \<open>xs\<close>; \<^term>\<open>None\<close> when
    the sort ends with an exception of the comparator;
  \<^item> \<open>bcrypt_hash\<close> password salt and \<open>bcrypt_compare\<close> password hash.
\<close>

record runtime =
  StringToNumber :: "string \<Rightarrow> number"
  ObjectToNumber :: "json \<Rightarrow> number option"
  DateOf :: "json option \<Rightarrow> date option"
  EngineSort :: "(obj \<Rightarrow> obj \<Rightarrow> number option) \<Rightarrow> obj list \<Rightarrow> obj list option"
  bcrypt_hash :: "string \<Rightarrow> string \<Rightarrow> string"
  bcrypt_compare :: "string \<Rightarrow> string \<Rightarrow> bool"

text \<open>What a request takes from the clock and the random source.\<close>

record env =
  dateNow :: int
  isoString :: string
  isoString2 :: string
  genSalt :: string

fun toNumber :: "runtime \<Rightarrow> json option \<Rightarrow> number option" where
  "toNumber rt None = Some NaN"
| "toNumber rt (Some JNull) = Some (Fin 0)"
| "toNumber rt (Some (JBool b)) = Some (Fin (if b then 1 else 0))"
| "toNumber rt (Some (JNum r)) = Some (Fin r)"
| "toNumber rt (Some (JStr s)) = Some (StringToNumber rt s)"
| "toNumber rt (Some (JArr xs)) = ObjectToNumber rt (JArr xs)"
| "toNumber rt (Some (JObj ps)) = ObjectToNumber rt (JObj ps)"

text \<open>\<^verbatim>\<open>n < 0\<close>.\<close>

fun isNegative :: "number \<Rightarrow> bool" where
  "isNegative (Fin r) = (r < 0)"
| "isNegative NegInf = True"
| "isNegative _ = False"

text \<open>\<^verbatim>\<open>v === n\<close> for a property read \<open>v\<close> and a number \<open>n\<close>.\<close>

fun strictEqNum :: "json option \<Rightarrow> number \<Rightarrow> bool" where
  "strictEqNum (Some (JNum r)) (Fin q) = (r = q)"
| "strictEqNum _ _ = False"

text \<open>A number as \<^verbatim>\<open>JSON.stringify\<close> writes it: what is not finite becomes \<^verbatim>\<open>null\<close>.\<close>

fun numberToJson :: "number \<Rightarrow> json" where
  "numberToJson (Fin r) = JNum r"
| "numberToJson _ = JNull"

text \<open>\<^verbatim>\<open>n || 0\<close>.\<close>

fun numberOrZero :: "number \<Rightarrow> number" where
  "numberOrZero NaN = Fin 0"
| "numberOrZero n = n"

subsection \<open>The document and the responses\<close>

record db =
  users :: "obj list"
  workouts :: "obj list"

text \<open>
  \<open>Reply s b\<close> is \<^verbatim>\<open>res.status(s).json(b)\<close>, \<open>SendStatus s\<close> is \<^verbatim>\<open>res.sendStatus(s)\<close>, and
  \<open>Error500\<close> is the \<^verbatim>\<open>catch\<close> branch answering 500 with the message of the exception,
  a text of the engine that is not modelled.
\<close>

datatype response = Reply nat json | SendStatus nat | Error500

definition errorBody :: "string \<Rightarrow> json" where
  "errorBody msg = JObj [(''error'', JStr msg)]"

definition findIndex :: "('a \<Rightarrow> bool) \<Rightarrow> 'a list \<Rightarrow> nat option" where
  "findIndex P xs = (if list_ex P xs then Some (length (takeWhile (\<lambda>x. \<not> P x) xs)) else None)"

subsection \<open>1. Register\<close>

definition defaultProfile :: json where
  "defaultProfile = JObj
     [(''age'', JNum 0), (''weight'', JNum 0), (''height'', JNum 0), (''goalWeight'', JNum 0),
      (''dailyCalorieGoal'', JNum 2000), (''activityLevel'', JStr ''moderate'')]"

text \<open>The object literal \<^verbatim>\<open>newUser\<close>.\<close>

definition newUser :: "int \<Rightarrow> string \<Rightarrow> string \<Rightarrow> string \<Rightarrow> string \<Rightarrow> obj" where
  "newUser now normalizedUser hashedPassword name joined =
     [(''id'', JNum (of_int now)),
      (''username'', JStr normalizedUser),
      (''password'', JStr hashedPassword),
      (''fullName'', JStr name),
      (''joinedDate'', JStr joined),
      (''profile'', defaultProfile)]"

definition register :: "runtime \<Rightarrow> env \<Rightarrow> db \<Rightarrow> obj \<Rightarrow> response \<times> db" where
  "register rt e d body =
     (let username = field body ''username'';
          password = field body ''password'';
          fullName = field body ''fullName''
      in if \<not> truthy username \<or> \<not> truthy password
         then (Reply 400 (errorBody ''Missing username or password''), d)
         else
           (case (callTrim username, callTrim password) of
              (Some trimmedUser, Some cleanPassword) \<Rightarrow>
                (let normalizedUser = toLowerCase trimmedUser
                 in if \<not> isValidGmail normalizedUser
                    then (Reply 400 (errorBody
                            ''Registration is restricted to @gmail.com addresses only.''), d)
                    else if length cleanPassword < 8
                    then (Reply 400 (errorBody
                            ''Password must be at least 8 characters long.''), d)
                    else if find (\<lambda>u. field u ''username'' = Some (JStr normalizedUser)) (users d)
                            \<noteq> None
                    then (Reply 409 (errorBody ''Account already exists.''), d)
                    else
                      (let hashedPassword = bcrypt_hash rt cleanPassword (genSalt e)
                       in case trimOrEmpty fullName of
                            None \<Rightarrow> (Reply 500 (errorBody ''Internal Server Error''), d)
                          | Some name \<Rightarrow>
                              (let user = newUser (dateNow e) normalizedUser hashedPassword
                                            name (isoString e)
                               in (Reply 201 (JObj (delField ''password'' user)),
                                   d\<lparr>users := users d @ [user]\<rparr>))))
            | _ \<Rightarrow> (Reply 500 (errorBody ''Internal Server Error''), d)))"

subsection \<open>2. Login\<close>

text \<open>
  bcryptjs rejects a password or a stored hash that is not a string with an error, which
  the handler's \<^verbatim>\<open>catch\<close> turns into a 500.
\<close>

definition login :: "runtime \<Rightarrow> db \<Rightarrow> obj \<Rightarrow> response" where
  "login rt d body =
     (let username = field body ''username'';
          password = field body ''password''
      in if \<not> truthy username \<or> \<not> truthy password
         then Reply 400 (errorBody ''Missing credentials'')
         else
           (case callTrim username of
              None \<Rightarrow> Error500
            | Some trimmedUser \<Rightarrow>
                (let normalizedUser = toLowerCase trimmedUser
                 in case find (\<lambda>u. field u ''username'' = Some (JStr normalizedUser)) (users d) of
                      None \<Rightarrow> Reply 401 (errorBody ''Invalid credentials'')
                    | Some user \<Rightarrow>
                        (case (password, field user ''password'') of
                           (Some (JStr p), Some (JStr h)) \<Rightarrow>
                             if \<not> bcrypt_compare rt p h
                             then Reply 401 (errorBody ''Invalid credentials'')
                             else Reply 200 (JObj (delField ''password'' user))
                         | _ \<Rightarrow> Error500))))"

subsection \<open>3. Get Workouts\<close>

text \<open>
  \<^verbatim>\<open>x - y\<close> on two dates. Time values are integers of at most 8.64e15 in absolute value,
  so the double that the subtraction yields has the sign of the exact difference.
\<close>

fun dateDiff :: "date \<Rightarrow> date \<Rightarrow> number" where
  "dateDiff (TimeValue x) (TimeValue y) = Fin (of_int (x - y))"
| "dateDiff _ _ = NaN"

text \<open>\<^verbatim>\<open>(a, b) => new Date(b.date) - new Date(a.date)\<close>, the left operand first.\<close>

definition compareDates :: "runtime \<Rightarrow> obj \<Rightarrow> obj \<Rightarrow> number option" where
  "compareDates rt a b =
     (case DateOf rt (field b ''date'') of
        None \<Rightarrow> None
      | Some db \<Rightarrow>
          (case DateOf rt (field a ''date'') of
             None \<Rightarrow> None
           | Some da \<Rightarrow> Some (dateDiff db da)))"

text \<open>\<^verbatim>\<open>v > 0\<close>; the sort reads a comparator result of \<^verbatim>\<open>NaN\<close> as 0.\<close>

fun isPositive :: "number \<Rightarrow> bool" where
  "isPositive (Fin r) = (0 < r)"
| "isPositive PosInf = True"
| "isPositive _ = False"

text \<open>
  For a comparator that is a consistent ordering of the array the language fixes the
  result of \<^verbatim>\<open>Array.prototype.sort\<close>: sorted by the comparator and stable. \<open>sortBy\<close> is
  that result, computed as a stable insertion sort; it is used below for such
  comparators only.
\<close>

fun insertBy :: "('a \<Rightarrow> 'a \<Rightarrow> number option) \<Rightarrow> 'a \<Rightarrow> 'a list \<Rightarrow> 'a list option" where
  "insertBy c x [] = Some [x]"
| "insertBy c x (y # ys) =
     (case c x y of
        None \<Rightarrow> None
      | Some v \<Rightarrow>
          (if isPositive v then map_option ((#) y) (insertBy c x ys)
           else Some (x # y # ys)))"

fun sortBy :: "('a \<Rightarrow> 'a \<Rightarrow> number option) \<Rightarrow> 'a list \<Rightarrow> 'a list option" where
  "sortBy c [] = Some []"
| "sortBy c (x # xs) =
     (case sortBy c xs of None \<Rightarrow> None | Some ys \<Rightarrow> insertBy c x ys)"

fun isTimeValue :: "date option \<Rightarrow> bool" where
  "isTimeValue (Some (TimeValue x)) = True"
| "isTimeValue _ = False"

text \<open>
  \<^verbatim>\<open>ws.sort((a, b) => new Date(b.date) - new Date(a.date))\<close>. An array of fewer than two
  elements is returned without a call of the comparator. When every date is valid the
  comparator is the descending order of the time values, a consistent ordering, and the
  result is the one the language fixes. Otherwise some comparison raises or answers
  \<^verbatim>\<open>NaN\<close>, and the result is the engine's.
\<close>

definition sortByDate :: "runtime \<Rightarrow> obj list \<Rightarrow> obj list option" where
  "sortByDate rt ws =
     (if length ws < 2 then Some ws
      else if list_all (\<lambda>w. isTimeValue (DateOf rt (field w ''date''))) ws
      then sortBy (compareDates rt) ws
      else EngineSort rt (compareDates rt) ws)"

text \<open>
  The callback of \<^verbatim>\<open>filter\<close> evaluates \<^verbatim>\<open>Number(userId)\<close> once for each workout, so
  not at all when there is none.
\<close>

definition getWorkouts :: "runtime \<Rightarrow> db \<Rightarrow> json option \<Rightarrow> response" where
  "getWorkouts rt d userId =
     (if \<not> truthy userId then Reply 400 (errorBody ''userId required'')
      else if workouts d = [] then Reply 200 (JArr [])
      else
        (case toNumber rt userId of
           None \<Rightarrow> Error500
         | Some n \<Rightarrow>
             (case sortByDate rt
                     (filter (\<lambda>w. strictEqNum (field w ''userId'') n) (workouts d)) of
                None \<Rightarrow> Error500
              | Some ws \<Rightarrow> Reply 200 (JArr (map JObj ws)))))"

subsection \<open>4. Add Workout\<close>

text \<open>\<^verbatim>\<open>Number(duration) < 0 || Number(calories) < 0\<close>, \<^term>\<open>None\<close> when a conversion raises.\<close>

definition negativeInput :: "runtime \<Rightarrow> json option \<Rightarrow> json option \<Rightarrow> bool option" where
  "negativeInput rt duration calories =
     (case toNumber rt duration of
        None \<Rightarrow> None
      | Some dn \<Rightarrow>
          (if isNegative dn then Some True
           else (case toNumber rt calories of
                   None \<Rightarrow> None
                 | Some cn \<Rightarrow> Some (isNegative cn))))"

text \<open>
  \<^verbatim>\<open>xs.some(x => x.id === Number(v))\<close>: the conversion runs in the callback, so an
  empty array answers false without it.
\<close>

definition someWithId :: "runtime \<Rightarrow> json option \<Rightarrow> obj list \<Rightarrow> bool option" where
  "someWithId rt v xs =
     (if xs = [] then Some False
      else (case toNumber rt v of
              None \<Rightarrow> None
            | Some n \<Rightarrow> Some (list_ex (\<lambda>x. strictEqNum (field x ''id'') n) xs)))"

definition addWorkout :: "runtime \<Rightarrow> env \<Rightarrow> db \<Rightarrow> obj \<Rightarrow> response \<times> db" where
  "addWorkout rt e d body =
     (let userId = field body ''userId'';
          type = field body ''type'';
          duration = field body ''duration'';
          calories = field body ''calories'';
          date = field body ''date'';
          notes = field body ''notes'';
          intensity = field body ''intensity''
      in if \<not> truthy userId \<or> \<not> truthy type
         then (Reply 400 (errorBody ''Missing required fields''), d)
         else
           (case negativeInput rt duration calories of
              None \<Rightarrow> (Error500, d)
            | Some True \<Rightarrow>
                (Reply 400 (errorBody ''Duration and calories cannot be negative''), d)
            | Some False \<Rightarrow>
                (case someWithId rt userId (users d) of
                   None \<Rightarrow> (Error500, d)
                 | Some False \<Rightarrow> (Reply 404 (errorBody ''User ID not found''), d)
                 | Some True \<Rightarrow>
                     (case (toNumber rt userId, callTrim type, toNumber rt duration,
                            toNumber rt calories, trimOrEmpty notes) of
                        (Some un, Some ty, Some dn, Some cn, Some nt) \<Rightarrow>
                          (let newWorkout =
                                 [(''id'', JNum (of_int (dateNow e))),
                                  (''userId'', numberToJson un),
                                  (''type'', JStr ty),
                                  (''duration'', numberToJson (numberOrZero dn)),
                                  (''calories'', numberToJson (numberOrZero cn)),
                                  (''date'', orElse date (JStr (isoString e))),
                                  (''notes'', JStr nt),
                                  (''intensity'', orElse intensity (JStr ''medium'')),
                                  (''timestamp'', JStr (isoString2 e))]
                           in (Reply 201 (JObj newWorkout),
                               d\<lparr>workouts := workouts d @ [newWorkout]\<rparr>))
                      | _ \<Rightarrow> (Error500, d)))))"

subsection \<open>5. Edit Workout\<close>

text \<open>\<^verbatim>\<open>if (updates[k]) updates[k] = updates[k].trim()\<close>.\<close>

definition trimIfTruthy :: "string \<Rightarrow> obj \<Rightarrow> obj option" where
  "trimIfTruthy k updates =
     (if truthy (field updates k)
      then map_option (\<lambda>s. setField k (JStr s) updates) (callTrim (field updates k))
      else Some updates)"

text \<open>The path parameter \<^verbatim>\<open>id\<close>, here \<open>idParam\<close>, is a string.\<close>

definition editWorkout :: "runtime \<Rightarrow> db \<Rightarrow> string \<Rightarrow> obj \<Rightarrow> response \<times> db" where
  "editWorkout rt d idParam body =
     (let n = StringToNumber rt idParam
      in case findIndex (\<lambda>w. strictEqNum (field w ''id'') n) (workouts d) of
           None \<Rightarrow> (Reply 404 (errorBody ''Workout not found''), d)
         | Some index \<Rightarrow>
             (case trimIfTruthy ''type'' body of
                None \<Rightarrow> (Error500, d)
              | Some updates1 \<Rightarrow>
                  (case trimIfTruthy ''notes'' updates1 of
                     None \<Rightarrow> (Error500, d)
                   | Some updates \<Rightarrow>
                       (let merged = spread (spread [] (workouts d ! index)) updates;
                            stored = setField ''id'' (numberToJson n) merged
                        in (Reply 200 (JObj stored),
                            d\<lparr>workouts := (workouts d)[index := stored]\<rparr>)))))"

subsection \<open>6. Delete Workout\<close>

definition deleteWorkout :: "runtime \<Rightarrow> db \<Rightarrow> string \<Rightarrow> response \<times> db" where
  "deleteWorkout rt d idParam =
     (let initialLen = length (workouts d);
          remaining = filter (\<lambda>w. \<not> strictEqNum (field w ''id'') (StringToNumber rt idParam))
                        (workouts d)
      in if length remaining = initialLen then (Reply 404 (errorBody ''Not found''), d)
         else (SendStatus 204, d\<lparr>workouts := remaining\<rparr>))"

subsection \<open>7. Update Profile\<close>

text \<open>
  \<^verbatim>\<open>xs.findIndex(x => x.id === Number(v))\<close>, with the conversion in the callback as in
  \<open>someWithId\<close>. The outer \<^term>\<open>None\<close> is the TypeError, the inner one the index -1.
\<close>

definition findIndexWithId :: "runtime \<Rightarrow> json option \<Rightarrow> obj list \<Rightarrow> nat option option" where
  "findIndexWithId rt v xs =
     (if xs = [] then Some None
      else (case toNumber rt v of
              None \<Rightarrow> None
            | Some n \<Rightarrow> Some (findIndex (\<lambda>x. strictEqNum (field x ''id'') n) xs)))"

definition updateProfile :: "runtime \<Rightarrow> db \<Rightarrow> obj \<Rightarrow> response \<times> db" where
  "updateProfile rt d body =
     (let userId = field body ''userId'';
          stats = delField ''userId'' body
      in case findIndexWithId rt userId (users d) of
           None \<Rightarrow> (Error500, d)
         | Some None \<Rightarrow> (Reply 404 (errorBody ''User not found''), d)
         | Some (Some userIndex) \<Rightarrow>
             (let user = users d ! userIndex;
                  profile = spread (spread [] (ownProps (field user ''profile''))) stats;
                  updated = setField ''profile'' (JObj profile) user
              in (Reply 200 (JObj (delField ''password'' updated)),
                  d\<lparr>users := (users d)[userIndex := updated]\<rparr>)))"

subsection \<open>The responses under the names of the error taxonomy\<close>

definition DuplicateAccount :: response where
  "DuplicateAccount = Reply 409 (errorBody ''Account already exists.'')"

definition InvalidCredentials :: response where
  "InvalidCredentials = Reply 401 (errorBody ''Invalid credentials'')"

definition MissingField :: response where
  "MissingField = Reply 400 (errorBody ''Missing required fields'')"

definition InvalidValue :: response where
  "InvalidValue = Reply 400 (errorBody ''Duration and calories cannot be negative'')"

definition UserNotFound :: response where
  "UserNotFound = Reply 404 (errorBody ''User ID not found'')"

definition NotFound :: response where
  "NotFound = Reply 404 (errorBody ''Not found'')"

subsection \<open>A runtime for the worked examples\<close>

text \<open>
  The examples below need one runtime to run on. This one agrees with the language on
  the strings the examples convert: a plain run of decimal digits is its value, the
  three calendar dates are their UTC midnights in milliseconds, and a text that is no
  date is an invalid date. Its \<open>EngineSort\<close> is the stable insertion sort, which
  permutes every array and, on the array of the example that uses it, moves nothing.
  In place of bcrypt stands a transparent pair whose \<open>compare\<close> accepts exactly the
  text that was hashed.
\<close>

definition isDigit :: "char \<Rightarrow> bool" where
  "isDigit c = (let n = (of_char c :: nat) in 48 \<le> n \<and> n \<le> 57)"

definition digitsToNumber :: "string \<Rightarrow> number" where
  "digitsToNumber s =
     (if s \<noteq> [] \<and> list_all isDigit s
      then Fin (of_nat (foldl (\<lambda>acc c. 10 * acc + (of_char c - 48)) 0 s))
      else NaN)"

fun sampleDateOf :: "json option \<Rightarrow> date option" where
  "sampleDateOf (Some (JStr s)) =
     Some (if s = ''2024-01-01'' then TimeValue 1704067200000
           else if s = ''2024-02-01'' then TimeValue 1706745600000
           else if s = ''2024-03-01'' then TimeValue 1709251200000
           else InvalidDate)"
| "sampleDateOf _ = Some InvalidDate"

definition sampleRuntime :: runtime where
  "sampleRuntime =
     \<lparr>StringToNumber = digitsToNumber,
      ObjectToNumber = (\<lambda>v. Some NaN),
      DateOf = sampleDateOf,
      EngineSort = sortBy,
      bcrypt_hash = (\<lambda>password salt. salt @ password),
      bcrypt_compare = (\<lambda>password hash. drop (length hash - length password) hash = password
                                       \<and> length hash = 4 + length password)\<rparr>"

definition sampleEnv :: env where
  "sampleEnv =
     \<lparr>dateNow = 1718000000000,
      isoString = ''2024-06-10T06:13:20.000Z'',
      isoString2 = ''2024-06-10T06:13:20.000Z'',
      genSalt = ''salt''\<rparr>"

definition sampleUser :: obj where
  "sampleUser =
     [(''id'', JNum 1718000000000), (''username'', JStr ''ab@gmail.com''),
      (''password'', JStr ''saltpassword1''), (''fullName'', JStr []),
      (''joinedDate'', JStr ''2024-06-10T06:13:20.000Z''), (''profile'', defaultProfile)]"

definition sampleWorkouts :: "obj list" where
  "sampleWorkouts =
     [[(''id'', JNum 1), (''userId'', JNum 7), (''type'', JStr ''run''), (''date'', JStr ''2024-01-01'')],
      [(''id'', JNum 2), (''userId'', JNum 7), (''type'', JStr ''swim''), (''date'', JStr ''2024-03-01'')],
      [(''id'', JNum 3), (''userId'', JNum 7), (''type'', JStr ''row''), (''date'', JStr ''2024-02-01'')]]"

definition sampleMember :: obj where
  "sampleMember =
     [(''id'', JNum 42), (''username'', JStr ''cd@gmail.com''),
      (''password'', JStr ''saltpassword2''), (''fullName'', JStr ''C D''),
      (''joinedDate'', JStr ''2024-05-01T00:00:00.000Z''),
      (''profile'', JObj [(''age'', JNum 30), (''weight'', JNum 70)])]"

text \<open>The time value of the date of a workout, 0 when the date is not valid.\<close>

definition timeOf :: "runtime \<Rightarrow> obj \<Rightarrow> int" where
  "timeOf rt w = (case DateOf rt (field w ''date'') of Some (TimeValue x) \<Rightarrow> x | _ \<Rightarrow> 0)"

definition tiedWorkouts :: "obj list" where
  "tiedWorkouts = sampleWorkouts @
     [[(''id'', JNum 4), (''userId'', JNum 8), (''type'', JStr ''walk''), (''date'', JStr ''2024-03-01'')],
      [(''id'', JNum 5), (''userId'', JNum 7), (''type'', JStr ''lift''), (''date'', JStr ''2024-03-01'')]]"

definition datedWorkouts :: "obj list" where
  "datedWorkouts =
     [[(''id'', JNum 1), (''userId'', JNum 7), (''type'', JStr ''run''), (''date'', JStr ''2024-01-01'')],
      [(''id'', JNum 2), (''userId'', JNum 7), (''type'', JStr ''swim''), (''date'', JStr ''someday'')],
      [(''id'', JNum 3), (''userId'', JNum 7), (''type'', JStr ''row''), (''date'', JStr ''2024-03-01'')]]"

section \<open>Properties\<close>

subsection \<open>Objects and array searches\<close>

lemma field_append:
  "field (ps @ qs) k = (case field qs k of Some v \<Rightarrow> Some v | None \<Rightarrow> field ps k)"
  by (induction ps) (auto split: option.splits)

lemma field_None_iff: "field ps k = None \<longleftrightarrow> k \<notin> fst ` set ps"
  by (induction ps) (auto split: option.splits)

lemma field_map_assign:
  "field (map (\<lambda>p. if fst p = k then (k, v) else p) ps) k' =
     (if k' = k then (if k \<in> fst ` set ps then Some v else None) else field ps k')"
  by (induction ps) (auto split: option.splits simp: field_None_iff)

lemma field_setField:
  "field (setField k v ps) k' = (if k' = k then Some v else field ps k')"
  by (auto simp: setField_def field_map_assign field_append field_None_iff split: option.splits)

lemma field_delField:
  "field (delField k ps) k' = (if k' = k then None else field ps k')"
  unfolding delField_def by (induction ps) (auto split: option.splits)

lemma field_spread:
  "field (spread a b) k = (case field b k of Some v \<Rightarrow> Some v | None \<Rightarrow> field a k)"
  unfolding spread_def
  by (induction b arbitrary: a) (auto simp: field_setField split: option.splits)

lemma first_match:
  "\<exists>x\<in>set xs. P x \<Longrightarrow>
     length (takeWhile (\<lambda>x. \<not> P x) xs) < length xs \<and>
     P (xs ! length (takeWhile (\<lambda>x. \<not> P x) xs)) \<and>
     (\<forall>j < length (takeWhile (\<lambda>x. \<not> P x) xs). \<not> P (xs ! j))"
proof (induction xs)
  case Nil
  then show ?case by simp
next
  case (Cons x xs)
  show ?case
  proof (cases "P x")
    case True
    then show ?thesis by simp
  next
    case False
    with Cons.prems have "\<exists>x\<in>set xs. P x" by simp
    from Cons.IH [OF this] False show ?thesis
      by (auto simp: nth_Cons split: nat.splits)
  qed
qed

lemma findIndex_Some:
  "findIndex P xs = Some i \<Longrightarrow> i < length xs \<and> P (xs ! i) \<and> (\<forall>j<i. \<not> P (xs ! j))"
  unfolding findIndex_def list_ex_iff using first_match [of xs P]
  by (auto split: if_splits)

lemma findIndex_None: "findIndex P xs = None \<longleftrightarrow> (\<forall>x\<in>set xs. \<not> P x)"
  unfolding findIndex_def list_ex_iff by auto

lemma find_None_set: "find P xs = None \<longleftrightarrow> (\<forall>x\<in>set xs. \<not> P x)"
  by (auto simp: find_None_iff)

subsection \<open>Strings that pass validation are not empty\<close>

lemma trim_Nil: "trim [] = []"
  by (simp add: trim_def)

lemma isValidGmail_nonempty: "isValidGmail s \<Longrightarrow> s \<noteq> []"
  by (auto simp: isValidGmail_def Let_def)

lemma normalized_nonempty: "isValidGmail (toLowerCase (trim s)) \<Longrightarrow> s \<noteq> []"
  using isValidGmail_nonempty [of "toLowerCase (trim s)"]
  by (auto simp: toLowerCase_def trim_Nil)

lemma clean_password_nonempty: "8 \<le> length (trim p) \<Longrightarrow> p \<noteq> []"
  by (auto simp: trim_Nil)

subsection \<open>Registration\<close>

text \<open>
  Claim C2. A registration whose username, trimmed and lowercased, is the stored
  username of an existing user (and which passes the address and password checks
  before it) is answered with \<open>DuplicateAccount\<close>, and the document is the one read:
  the users collection is unchanged. The stored name is compared with the normalized
  one, so case and surrounding white space of the request play no part.
\<close>

theorem register_duplicate:
  assumes user: "field body ''username'' = Some (JStr name)"
    and pass: "field body ''password'' = Some (JStr pw)"
    and valid: "isValidGmail (toLowerCase (trim name))"
    and long: "8 \<le> length (trim pw)"
    and taken: "\<exists>u\<in>set (users d). field u ''username'' = Some (JStr (toLowerCase (trim name)))"
  shows "register rt e d body = (DuplicateAccount, d)"
proof -
  have "name \<noteq> []" "pw \<noteq> []"
    using valid long by (auto dest: normalized_nonempty clean_password_nonempty)
  moreover have "find (\<lambda>u. field u ''username'' = Some (JStr (toLowerCase (trim name)))) (users d)
                   \<noteq> None"
    using taken by (simp add: find_None_set)
  ultimately show ?thesis
    using user pass valid long
    by (simp add: register_def DuplicateAccount_def Let_def)
qed

theorem register_duplicate_witness:
  "register sampleRuntime sampleEnv \<lparr>users = [], workouts = []\<rparr>
       [(''username'', JStr ''ab@gmail.com''), (''password'', JStr ''password1'')]
     = (Reply 201 (JObj (delField ''password'' sampleUser)), \<lparr>users = [sampleUser], workouts = []\<rparr>)
   \<and> register sampleRuntime sampleEnv \<lparr>users = [sampleUser], workouts = []\<rparr>
       [(''username'', JStr '' AB@Gmail.com  ''), (''password'', JStr ''another-pass'')]
     = (DuplicateAccount, \<lparr>users = [sampleUser], workouts = []\<rparr>)"
proof -
  have first: "register sampleRuntime sampleEnv \<lparr>users = [], workouts = []\<rparr>
       [(''username'', JStr ''ab@gmail.com''), (''password'', JStr ''password1'')]
     = (Reply 201 (JObj (delField ''password'' sampleUser)), \<lparr>users = [sampleUser], workouts = []\<rparr>)"
    by code_simp
  have norm: "toLowerCase (trim '' AB@Gmail.com  '') = ''ab@gmail.com''"
    by code_simp
  have valid: "isValidGmail (toLowerCase (trim '' AB@Gmail.com  ''))"
    by code_simp
  have long: "8 \<le> length (trim ''another-pass'')"
    by code_simp
  have taken: "\<exists>u\<in>set (users \<lparr>users = [sampleUser], workouts = []\<rparr>).
                 field u ''username'' = Some (JStr (toLowerCase (trim '' AB@Gmail.com  '')))"
    unfolding norm by (simp add: sampleUser_def)
  show ?thesis
    using first register_duplicate [OF _ _ valid long taken, of
        "[(''username'', JStr '' AB@Gmail.com  ''), (''password'', JStr ''another-pass'')]"
        sampleRuntime sampleEnv]
    by simp
qed

subsection \<open>Login\<close>




subsection \<open>Deleting a workout\<close>

text \<open>
  Claim C8. A delete whose path id equals the id of no stored workout is answered with
  \<open>NotFound\<close>, and the document, so also the length of the workout collection, is
  unchanged.
\<close>

theorem deleteWorkout_unknown_id:
  assumes "\<forall>w\<in>set (workouts d). \<not> strictEqNum (field w ''id'') (StringToNumber rt idParam)"
  shows "deleteWorkout rt d idParam = (NotFound, d)
       \<and> length (workouts (snd (deleteWorkout rt d idParam))) = length (workouts d)"
proof -
  have "filter (\<lambda>w. \<not> strictEqNum (field w ''id'') (StringToNumber rt idParam)) (workouts d)
          = workouts d"
    using assms by simp
  then show ?thesis
    by (simp add: deleteWorkout_def NotFound_def)
qed

theorem deleteWorkout_unknown_id_witness:
  "deleteWorkout sampleRuntime \<lparr>users = [], workouts = sampleWorkouts\<rparr> ''9''
     = (NotFound, \<lparr>users = [], workouts = sampleWorkouts\<rparr>)
   \<and> length (workouts (snd (deleteWorkout sampleRuntime
         \<lparr>users = [], workouts = sampleWorkouts\<rparr> ''9''))) = 3"
proof -
  have h: "\<forall>w\<in>set (workouts \<lparr>users = [], workouts = sampleWorkouts\<rparr>).
             \<not> strictEqNum (field w ''id'') (StringToNumber sampleRuntime ''9'')"
    by (simp add: sampleWorkouts_def sampleRuntime_def digitsToNumber_def isDigit_def)
  show ?thesis
    using deleteWorkout_unknown_id [OF h] by (simp add: sampleWorkouts_def)
qed

subsection \<open>Adding a workout\<close>

text \<open>
  Claim C10. The required-field check of add-workout rejects with \<open>MissingField\<close>
  whenever \<open>userId\<close> or \<open>type\<close> is falsy, not only when it is absent: a \<open>userId\<close> of 0 and
  a \<open>type\<close> of the empty string are rejected although the field is present.
\<close>

theorem addWorkout_falsy_required:
  "(\<not> truthy (field body ''userId'') \<or> \<not> truthy (field body ''type'')
      \<longrightarrow> addWorkout rt e d body = (MissingField, d))
   \<and> (field body ''userId'' = Some (JNum 0) \<longrightarrow> addWorkout rt e d body = (MissingField, d))
   \<and> (field body ''type'' = Some (JStr []) \<longrightarrow> addWorkout rt e d body = (MissingField, d))"
  by (auto simp: addWorkout_def MissingField_def Let_def)

theorem addWorkout_falsy_required_witness:
  "field [(''userId'', JNum 0), (''type'', JStr ''run'')] ''userId'' = Some (JNum 0)
   \<and> addWorkout sampleRuntime sampleEnv \<lparr>users = [[(''id'', JNum 0)]], workouts = []\<rparr>
        [(''userId'', JNum 0), (''type'', JStr ''run'')]
       = (MissingField, \<lparr>users = [[(''id'', JNum 0)]], workouts = []\<rparr>)"
  using addWorkout_falsy_required [of "[(''userId'', JNum 0), (''type'', JStr ''run'')]"
      sampleRuntime sampleEnv "\<lparr>users = [[(''id'', JNum 0)]], workouts = []\<rparr>"]
  by simp

text \<open>
  Claim C4, as stated, fails: the handler checks the sign of \<open>duration\<close> and \<open>calories\<close>
  before it reads the document, so a request with a negative duration and a \<open>userId\<close>
  that references no user is answered with \<open>InvalidValue\<close>, not \<open>UserNotFound\<close>.
\<close>

theorem addWorkout_negative_before_lookup_counterexample:
  "truthy (field [(''userId'', JNum 42), (''type'', JStr ''run''), (''duration'', JNum (- 5))] ''userId'')
   \<and> truthy (field [(''userId'', JNum 42), (''type'', JStr ''run''), (''duration'', JNum (- 5))] ''type'')
   \<and> someWithId sampleRuntime (Some (JNum 42)) [sampleUser] = Some False
   \<and> addWorkout sampleRuntime sampleEnv \<lparr>users = [sampleUser], workouts = []\<rparr>
        [(''userId'', JNum 42), (''type'', JStr ''run''), (''duration'', JNum (- 5))]
       = (InvalidValue, \<lparr>users = [sampleUser], workouts = []\<rparr>)
   \<and> InvalidValue \<noteq> UserNotFound"
  by (simp add: addWorkout_def someWithId_def negativeInput_def InvalidValue_def UserNotFound_def
      sampleUser_def errorBody_def)

text \<open>
  Claim C4, amended. For every create-workout request whose \<open>userId\<close> references no
  existing user (\<open>Number(userId)\<close>, if it evaluates, is the id of no stored user), whatever
  the other fields are, a negative duration or calories included, the document, so also
  the workout collection, is unchanged. When moreover \<open>userId\<close> and \<open>type\<close> pass the
  required-field check, the sign check evaluates and finds no negative value, and the
  lookup does not raise, the request fails with \<open>UserNotFound\<close>; when instead the sign
  check finds a negative value, it fails with \<open>InvalidValue\<close>.
\<close>

theorem addWorkout_unknown_user:
  assumes unknown: "\<forall>n. toNumber rt (field body ''userId'') = Some n \<longrightarrow>
                      (\<forall>u\<in>set (users d). \<not> strictEqNum (field u ''id'') n)"
  shows "snd (addWorkout rt e d body) = d
       \<and> workouts (snd (addWorkout rt e d body)) = workouts d
       \<and> (truthy (field body ''userId'') \<and> truthy (field body ''type'')
            \<and> negativeInput rt (field body ''duration'') (field body ''calories'') = Some False
            \<and> (users d = [] \<or> toNumber rt (field body ''userId'') \<noteq> None)
          \<longrightarrow> addWorkout rt e d body = (UserNotFound, d))
       \<and> (truthy (field body ''userId'') \<and> truthy (field body ''type'')
            \<and> negativeInput rt (field body ''duration'') (field body ''calories'') = Some True
          \<longrightarrow> addWorkout rt e d body = (InvalidValue, d))"
proof -
  have exists: "someWithId rt (field body ''userId'') (users d) \<noteq> Some True"
    using unknown by (auto simp: someWithId_def list_ex_iff split: option.splits)
  have found: "users d = [] \<or> toNumber rt (field body ''userId'') \<noteq> None
                 \<Longrightarrow> someWithId rt (field body ''userId'') (users d) = Some False"
    using unknown by (auto simp: someWithId_def list_ex_iff split: option.splits)
  have same: "snd (addWorkout rt e d body) = d"
    using exists
    by (auto simp: addWorkout_def Let_def split: option.splits bool.splits)
  have missing: "truthy (field body ''userId'') \<and> truthy (field body ''type'')
            \<and> negativeInput rt (field body ''duration'') (field body ''calories'') = Some False
            \<and> (users d = [] \<or> toNumber rt (field body ''userId'') \<noteq> None)
          \<longrightarrow> addWorkout rt e d body = (UserNotFound, d)"
    using found by (auto simp: addWorkout_def UserNotFound_def Let_def)
  have negative: "truthy (field body ''userId'') \<and> truthy (field body ''type'')
            \<and> negativeInput rt (field body ''duration'') (field body ''calories'') = Some True
          \<longrightarrow> addWorkout rt e d body = (InvalidValue, d)"
    by (simp add: addWorkout_def InvalidValue_def Let_def)
  from same missing negative show ?thesis
    by simp
qed

theorem addWorkout_unknown_user_witness:
  "addWorkout sampleRuntime sampleEnv \<lparr>users = [sampleUser], workouts = sampleWorkouts\<rparr>
        [(''userId'', JNum 42), (''type'', JStr ''run''), (''duration'', JNum 30)]
       = (UserNotFound, \<lparr>users = [sampleUser], workouts = sampleWorkouts\<rparr>)
   \<and> addWorkout sampleRuntime sampleEnv \<lparr>users = [sampleUser], workouts = sampleWorkouts\<rparr>
        [(''userId'', JNum 42), (''type'', JStr ''run''), (''duration'', JNum (- 5))]
       = (InvalidValue, \<lparr>users = [sampleUser], workouts = sampleWorkouts\<rparr>)"
proof -
  let ?d = "\<lparr>users = [sampleUser], workouts = sampleWorkouts\<rparr>"
  let ?ok = "[(''userId'', JNum 42), (''type'', JStr ''run''), (''duration'', JNum 30)]"
  let ?neg = "[(''userId'', JNum 42), (''type'', JStr ''run''), (''duration'', JNum (- 5))]"
  have unknown1: "\<forall>n. toNumber sampleRuntime (field ?ok ''userId'') = Some n \<longrightarrow>
                    (\<forall>u\<in>set (users ?d). \<not> strictEqNum (field u ''id'') n)"
    by (simp add: sampleUser_def)
  have unknown2: "\<forall>n. toNumber sampleRuntime (field ?neg ''userId'') = Some n \<longrightarrow>
                    (\<forall>u\<in>set (users ?d). \<not> strictEqNum (field u ''id'') n)"
    by (simp add: sampleUser_def)
  have sign1: "negativeInput sampleRuntime (field ?ok ''duration'') (field ?ok ''calories'')
                 = Some False"
    by (simp add: negativeInput_def)
  have sign2: "negativeInput sampleRuntime (field ?neg ''duration'') (field ?neg ''calories'')
                 = Some True"
    by (simp add: negativeInput_def)
  show ?thesis
    using addWorkout_unknown_user [OF unknown1, of sampleEnv]
      addWorkout_unknown_user [OF unknown2, of sampleEnv] sign1 sign2
    by simp
qed

subsection \<open>Registration followed by login\<close>

text \<open>
  Registration hashes the trimmed password; login hands the password of the request to
  bcrypt as it came. After a registration that succeeds, a login with the same body is
  decided by the comparison of the untrimmed password with the hash of the trimmed one.
\<close>

lemma find_append_new:
  "find P xs = None \<Longrightarrow> P x \<Longrightarrow> find P (xs @ [x]) = Some x"
  by (induction xs) (auto split: if_splits)

lemma register_success:
  assumes user: "field body ''username'' = Some (JStr name)"
    and pass: "field body ''password'' = Some (JStr pw)"
    and valid: "isValidGmail (toLowerCase (trim name))"
    and long: "8 \<le> length (trim pw)"
    and fresh: "\<forall>u\<in>set (users d). field u ''username'' \<noteq> Some (JStr (toLowerCase (trim name)))"
    and full: "trimOrEmpty (field body ''fullName'') = Some fn"
  shows "register rt e d body =
           (Reply 201 (JObj (delField ''password'' (newUser (dateNow e) (toLowerCase (trim name)) (bcrypt_hash rt (trim pw) (genSalt e)) fn (isoString e)))),
            d\<lparr>users := users d @ [newUser (dateNow e) (toLowerCase (trim name)) (bcrypt_hash rt (trim pw) (genSalt e)) fn (isoString e)]\<rparr>)"
proof -
  have "name \<noteq> []" "pw \<noteq> []"
    using valid long by (auto dest: normalized_nonempty clean_password_nonempty)
  moreover have "find (\<lambda>u. field u ''username'' = Some (JStr (toLowerCase (trim name)))) (users d)
                   = None"
    using fresh by (simp add: find_None_set)
  ultimately show ?thesis
    using user pass valid long full
    by (simp add: register_def newUser_def Let_def)
qed

lemma login_after_register:
  assumes user: "field body ''username'' = Some (JStr name)"
    and pass: "field body ''password'' = Some (JStr pw)"
    and valid: "isValidGmail (toLowerCase (trim name))"
    and long: "8 \<le> length (trim pw)"
    and fresh: "\<forall>u\<in>set (users d). field u ''username'' \<noteq> Some (JStr (toLowerCase (trim name)))"
    and full: "trimOrEmpty (field body ''fullName'') = Some fn"
  shows "login rt (snd (register rt e d body)) body =
           (if bcrypt_compare rt pw (bcrypt_hash rt (trim pw) (genSalt e))
            then Reply 200 (JObj (delField ''password'' (newUser (dateNow e) (toLowerCase (trim name)) (bcrypt_hash rt (trim pw) (genSalt e)) fn (isoString e))))
            else InvalidCredentials)"
proof -
  let ?u = "newUser (dateNow e) (toLowerCase (trim name)) (bcrypt_hash rt (trim pw) (genSalt e)) fn (isoString e)"
  let ?P = "\<lambda>u. field u ''username'' = Some (JStr (toLowerCase (trim name)))"
  have ne: "name \<noteq> []" "pw \<noteq> []"
    using valid long by (auto dest: normalized_nonempty clean_password_nonempty)
  have none: "find ?P (users d) = None"
    using fresh by (simp add: find_None_set)
  have new: "?P ?u"
    by (simp add: newUser_def)
  have found: "find ?P (users d @ [?u]) = Some ?u"
    using find_append_new [of ?P "users d" ?u, OF none new] .
  have hash: "field ?u ''password'' = Some (JStr (bcrypt_hash rt (trim pw) (genSalt e)))"
    by (simp add: newUser_def)
  show ?thesis
    unfolding register_success [OF assms]
    using user pass ne found hash
    by (simp add: login_def InvalidCredentials_def Let_def)
qed

text \<open>
  Claim C1 says that registering a username of the Gmail pattern with a password whose
  trimmed length is at least 8, on a document without that username, and then logging
  in with the same credentials succeeds. The code does not do so when the password has
  white space at an end: for the username \<open>ab@gmail.com\<close> and the password
  \<open>password1\<close> followed by a space the registration answers 201 with the user without
  its password, and the login with the same body is answered with
  \<open>InvalidCredentials\<close>, whenever bcrypt tells the password with the space from the
  hash of the password without it.
\<close>

theorem register_then_login_untrimmed_password:
  assumes "\<not> bcrypt_compare rt ''password1 '' (bcrypt_hash rt ''password1'' (genSalt e))"
  shows "fst (register rt e \<lparr>users = [], workouts = []\<rparr>
                [(''username'', JStr ''ab@gmail.com''), (''password'', JStr ''password1 '')])
           = Reply 201 (JObj (delField ''password'' (newUser (dateNow e) ''ab@gmail.com'' (bcrypt_hash rt ''password1'' (genSalt e)) [] (isoString e))))
       \<and> login rt (snd (register rt e \<lparr>users = [], workouts = []\<rparr>
                [(''username'', JStr ''ab@gmail.com''), (''password'', JStr ''password1 '')]))
            [(''username'', JStr ''ab@gmail.com''), (''password'', JStr ''password1 '')]
           = InvalidCredentials"
proof -
  let ?body = "[(''username'', JStr ''ab@gmail.com''), (''password'', JStr ''password1 '')]"
  have n: "toLowerCase (trim ''ab@gmail.com'') = ''ab@gmail.com''" by code_simp
  have p: "trim ''password1 '' = ''password1''" by code_simp
  have user: "field ?body ''username'' = Some (JStr ''ab@gmail.com'')" by simp
  have pass: "field ?body ''password'' = Some (JStr ''password1 '')" by simp
  have valid: "isValidGmail (toLowerCase (trim ''ab@gmail.com''))" by code_simp
  have long: "8 \<le> length (trim ''password1 '')" by code_simp
  have fresh: "\<forall>u\<in>set (users \<lparr>users = [], workouts = []\<rparr>).
                 field u ''username'' \<noteq> Some (JStr (toLowerCase (trim ''ab@gmail.com'')))"
    by simp
  have full: "trimOrEmpty (field ?body ''fullName'') = Some []"
    by (simp add: trimOrEmpty_def)
  show ?thesis
    using assms register_success [OF user pass valid long fresh full, of rt e]
      login_after_register [OF user pass valid long fresh full, of rt e]
    by (simp add: n p)
qed

theorem register_then_login_untrimmed_password_witness:
  "login sampleRuntime (snd (register sampleRuntime sampleEnv \<lparr>users = [], workouts = []\<rparr>
                [(''username'', JStr ''ab@gmail.com''), (''password'', JStr ''password1 '')]))
            [(''username'', JStr ''ab@gmail.com''), (''password'', JStr ''password1 '')]
           = InvalidCredentials"
proof -
  have h: "\<not> bcrypt_compare sampleRuntime ''password1 ''
               (bcrypt_hash sampleRuntime ''password1'' (genSalt sampleEnv))"
    by (simp add: sampleRuntime_def sampleEnv_def)
  show ?thesis
    using register_then_login_untrimmed_password [OF h] by simp
qed

subsection \<open>Editing a workout\<close>

lemma trimIfTruthy_Some:
  assumes "truthy (field u k) \<longrightarrow> (\<exists>s. field u k = Some (JStr s))"
  shows "\<exists>u'. trimIfTruthy k u = Some u' \<and>
           (\<forall>k'. field u' k' =
              (if k' = k \<and> truthy (field u k) then map_option JStr (callTrim (field u k))
               else field u k'))"
  using assms by (auto simp: trimIfTruthy_def field_setField)

lemma field_copy: "field (spread [] w) k = field w k"
  by (simp add: field_spread split: option.splits)

lemma field_spread_copy:
  "field (spread (spread [] w) u) k = (case field u k of Some v \<Rightarrow> Some v | None \<Rightarrow> field w k)"
  by (simp add: field_spread field_copy split: option.splits)

lemma strictEqNum_json: "strictEqNum v n \<Longrightarrow> v = Some (numberToJson n)"
  by (cases "(v, n)" rule: strictEqNum.cases) auto

text \<open>
  Claim C6, as stated, fails: the stored record is not the shallow merge of the request
  body over the existing record with only the id set back, because the handler trims
  \<open>type\<close> and \<open>notes\<close> before it merges. For the body with \<open>id\<close> 999 and a \<open>type\<close> with
  a space on each side, sent to the path of workout 2, the stored \<open>type\<close> has no spaces
  while the merge of the body as sent has them.
\<close>

theorem editWorkout_trims_type_counterexample:
  "workouts (snd (editWorkout sampleRuntime \<lparr>users = [], workouts = sampleWorkouts\<rparr> ''2''
                    [(''id'', JNum 999), (''type'', JStr '' yoga '')])) ! 1
     = [(''id'', JNum 2), (''userId'', JNum 7), (''type'', JStr ''yoga''),
        (''date'', JStr ''2024-03-01'')]
   \<and> setField ''id'' (JNum 2)
        (spread (spread [] (sampleWorkouts ! 1)) [(''id'', JNum 999), (''type'', JStr '' yoga '')])
     = [(''id'', JNum 2), (''userId'', JNum 7), (''type'', JStr '' yoga ''),
        (''date'', JStr ''2024-03-01'')]
   \<and> JStr ''yoga'' \<noteq> JStr '' yoga ''"
  by code_simp

text \<open>
  Claim C6, amended. For an update addressed to path id \<open>X\<close> where a workout with that
  id exists (the first such, at index \<open>i\<close>), and whose \<open>type\<close> and \<open>notes\<close> are each
  falsy or a string, the request succeeds and the stored record is the shallow merge,
  over the existing record, of the request body with truthy \<open>type\<close> and \<open>notes\<close>
  trimmed, except that its \<open>id\<close> is the number \<open>X\<close>, which is the id the record had,
  whatever \<open>id\<close> the body carries.
\<close>

theorem editWorkout_merge:
  assumes idx: "findIndex (\<lambda>w. strictEqNum (field w ''id'') (StringToNumber rt idParam))
                  (workouts d) = Some i"
    and ty: "truthy (field body ''type'') \<longrightarrow> (\<exists>s. field body ''type'' = Some (JStr s))"
    and nt: "truthy (field body ''notes'') \<longrightarrow> (\<exists>s. field body ''notes'' = Some (JStr s))"
  shows "\<exists>stored.
           editWorkout rt d idParam body
             = (Reply 200 (JObj stored), d\<lparr>workouts := (workouts d)[i := stored]\<rparr>)
         \<and> field stored ''id'' = Some (numberToJson (StringToNumber rt idParam))
         \<and> field stored ''id'' = field (workouts d ! i) ''id''
         \<and> (\<forall>k. k \<noteq> ''id'' \<longrightarrow>
               field stored k =
                 (case (if (k = ''type'' \<or> k = ''notes'') \<and> truthy (field body k)
                        then map_option JStr (callTrim (field body k))
                        else field body k) of
                    Some v \<Rightarrow> Some v
                  | None \<Rightarrow> field (workouts d ! i) k))"
proof -
  let ?n = "StringToNumber rt idParam"
  let ?w = "workouts d ! i"
  from trimIfTruthy_Some [OF ty] obtain u1 where
    u1: "trimIfTruthy ''type'' body = Some u1"
    and f1: "\<And>k'. field u1 k' =
              (if k' = ''type'' \<and> truthy (field body ''type'')
               then map_option JStr (callTrim (field body ''type'')) else field body k')"
    by blast
  have nt1: "truthy (field u1 ''notes'') \<longrightarrow> (\<exists>s. field u1 ''notes'' = Some (JStr s))"
    using nt by (simp add: f1)
  from trimIfTruthy_Some [OF nt1] obtain u2 where
    u2: "trimIfTruthy ''notes'' u1 = Some u2"
    and f2: "\<And>k'. field u2 k' =
              (if k' = ''notes'' \<and> truthy (field u1 ''notes'')
               then map_option JStr (callTrim (field u1 ''notes'')) else field u1 k')"
    by blast
  let ?stored = "setField ''id'' (numberToJson ?n) (spread (spread [] ?w) u2)"
  have run: "editWorkout rt d idParam body
               = (Reply 200 (JObj ?stored), d\<lparr>workouts := (workouts d)[i := ?stored]\<rparr>)"
    using idx u1 u2 by (simp add: editWorkout_def Let_def)
  have "strictEqNum (field ?w ''id'') ?n"
    using findIndex_Some [OF idx] by simp
  then have same: "field ?w ''id'' = Some (numberToJson ?n)"
    by (rule strictEqNum_json)
  have ident: "field ?stored ''id'' = Some (numberToJson ?n)"
    by (simp add: field_setField)
  have rest: "\<forall>k. k \<noteq> ''id'' \<longrightarrow>
               field ?stored k =
                 (case (if (k = ''type'' \<or> k = ''notes'') \<and> truthy (field body k)
                        then map_option JStr (callTrim (field body k))
                        else field body k) of
                    Some v \<Rightarrow> Some v
                  | None \<Rightarrow> field ?w k)"
    by (auto simp: field_setField field_spread_copy f1 f2)
  from run ident same rest show ?thesis
    by (intro exI [of _ ?stored]) simp
qed

theorem editWorkout_merge_witness:
  "fst (editWorkout sampleRuntime \<lparr>users = [], workouts = sampleWorkouts\<rparr> ''2''
          [(''id'', JNum 999), (''type'', JStr '' yoga ''), (''calories'', JNum 120)])
     = Reply 200 (JObj [(''id'', JNum 2), (''userId'', JNum 7), (''type'', JStr ''yoga''),
                        (''date'', JStr ''2024-03-01''), (''calories'', JNum 120)])
   \<and> field (workouts (snd (editWorkout sampleRuntime
                 \<lparr>users = [], workouts = sampleWorkouts\<rparr> ''2''
                 [(''id'', JNum 999), (''type'', JStr '' yoga ''), (''calories'', JNum 120)])) ! 1)
         ''id'' = Some (JNum 2)"
proof -
  let ?body = "[(''id'', JNum 999), (''type'', JStr '' yoga ''), (''calories'', JNum 120)]"
  have idx: "findIndex (\<lambda>w. strictEqNum (field w ''id'') (StringToNumber sampleRuntime ''2''))
               (workouts \<lparr>users = [], workouts = sampleWorkouts\<rparr>) = Some 1"
    by code_simp
  have ty: "truthy (field ?body ''type'') \<longrightarrow> (\<exists>s. field ?body ''type'' = Some (JStr s))"
    by simp
  have nt: "truthy (field ?body ''notes'') \<longrightarrow> (\<exists>s. field ?body ''notes'' = Some (JStr s))"
    by simp
  have num: "StringToNumber sampleRuntime ''2'' = Fin 2"
    by code_simp
  have run: "fst (editWorkout sampleRuntime \<lparr>users = [], workouts = sampleWorkouts\<rparr> ''2'' ?body)
     = Reply 200 (JObj [(''id'', JNum 2), (''userId'', JNum 7), (''type'', JStr ''yoga''),
                        (''date'', JStr ''2024-03-01''), (''calories'', JNum 120)])"
    by code_simp
  from editWorkout_merge [OF idx ty nt] obtain stored where
    "editWorkout sampleRuntime \<lparr>users = [], workouts = sampleWorkouts\<rparr> ''2'' ?body
       = (Reply 200 (JObj stored),
          \<lparr>users = [], workouts = sampleWorkouts\<rparr>
            \<lparr>workouts := (workouts \<lparr>users = [], workouts = sampleWorkouts\<rparr>)[1 := stored]\<rparr>)"
    and "field stored ''id'' = Some (numberToJson (StringToNumber sampleRuntime ''2''))"
    by blast
  then show ?thesis
    using run by (simp add: num sampleWorkouts_def)
qed

subsection \<open>Updating a profile\<close>

lemma findIndexWithId_Some:
  assumes "findIndexWithId rt v xs = Some (Some i)"
  shows "i < length xs"
    and "\<exists>n. toNumber rt v = Some n \<and> strictEqNum (field (xs ! i) ''id'') n"
  using assms findIndex_Some
  by (auto simp: findIndexWithId_def split: if_splits option.splits)

lemma updateProfile_run:
  assumes "findIndexWithId rt (field body ''userId'') (users d) = Some (Some i)"
  shows "updateProfile rt d body =
           (Reply 200 (JObj (delField ''password''
              (setField ''profile''
                 (JObj (spread (spread [] (ownProps (field (users d ! i) ''profile'')))
                          (delField ''userId'' body)))
                 (users d ! i)))),
            d\<lparr>users := (users d)[i := setField ''profile''
                 (JObj (spread (spread [] (ownProps (field (users d ! i) ''profile'')))
                          (delField ''userId'' body)))
                 (users d ! i)]\<rparr>)"
  using assms by (simp add: updateProfile_def Let_def)

lemma updateProfile_success:
  "(\<exists>reply. fst (updateProfile rt d body) = Reply 200 reply)
     \<longleftrightarrow> (\<exists>i. findIndexWithId rt (field body ''userId'') (users d) = Some (Some i))"
  by (auto simp: updateProfile_def Let_def errorBody_def split: option.splits)



text \<open>
  Claim C9. A profile update that succeeds changes the \<open>profile\<close> field of the targeted
  user and nothing else: every other field of that user (so \<open>id\<close>, \<open>username\<close>,
  \<open>password\<close>, \<open>fullName\<close> and \<open>joinedDate\<close>) is unchanged, every other user is
  unchanged and the workout collection is unchanged. Every field of the body other than
  \<open>userId\<close>, also one named \<open>password\<close> or \<open>username\<close>, ends up inside the profile.
\<close>

theorem updateProfile_frame:
  assumes "fst (updateProfile rt d body) = Reply 200 reply"
  shows "\<exists>i < length (users d).
           findIndexWithId rt (field body ''userId'') (users d) = Some (Some i)
         \<and> workouts (snd (updateProfile rt d body)) = workouts d
         \<and> length (users (snd (updateProfile rt d body))) = length (users d)
         \<and> (\<forall>j < length (users d). j \<noteq> i \<longrightarrow>
               users (snd (updateProfile rt d body)) ! j = users d ! j)
         \<and> (\<forall>k. k \<noteq> ''profile'' \<longrightarrow>
               field (users (snd (updateProfile rt d body)) ! i) k = field (users d ! i) k)
         \<and> (\<exists>profile. field (users (snd (updateProfile rt d body)) ! i) ''profile''
                          = Some (JObj profile)
               \<and> (\<forall>k v. k \<noteq> ''userId'' \<and> field body k = Some v \<longrightarrow> field profile k = Some v))"
proof -
  from assms obtain i where
    idx: "findIndexWithId rt (field body ''userId'') (users d) = Some (Some i)"
    using updateProfile_success [of rt d body] by blast
  have less: "i < length (users d)"
    using findIndexWithId_Some(1) [OF idx] .
  let ?p = "spread (spread [] (ownProps (field (users d ! i) ''profile''))) (delField ''userId'' body)"
  let ?u = "setField ''profile'' (JObj ?p) (users d ! i)"
  have snd: "snd (updateProfile rt d body) = d\<lparr>users := (users d)[i := ?u]\<rparr>"
    by (simp add: updateProfile_run [OF idx])
  have merged: "\<forall>k v. k \<noteq> ''userId'' \<and> field body k = Some v \<longrightarrow> field ?p k = Some v"
    by (simp add: field_spread_copy field_delField)
  have prof: "field ?u ''profile'' = Some (JObj ?p)"
    by (simp add: field_setField)
  show ?thesis
    unfolding snd using idx less merged prof
    by (intro exI [of _ i]) (simp add: field_setField)
qed

theorem updateProfile_frame_witness:
  "users (snd (updateProfile sampleRuntime
        \<lparr>users = [sampleUser, sampleMember], workouts = sampleWorkouts\<rparr>
        [(''userId'', JNum 42), (''password'', JStr ''overwritten''), (''username'', JStr ''x'')]))
     = [sampleUser,
        [(''id'', JNum 42), (''username'', JStr ''cd@gmail.com''),
         (''password'', JStr ''saltpassword2''), (''fullName'', JStr ''C D''),
         (''joinedDate'', JStr ''2024-05-01T00:00:00.000Z''),
         (''profile'', JObj [(''age'', JNum 30), (''weight'', JNum 70),
                             (''password'', JStr ''overwritten''), (''username'', JStr ''x'')])]]
   \<and> workouts (snd (updateProfile sampleRuntime
        \<lparr>users = [sampleUser, sampleMember], workouts = sampleWorkouts\<rparr>
        [(''userId'', JNum 42), (''password'', JStr ''overwritten''), (''username'', JStr ''x'')]))
     = sampleWorkouts"
proof -
  let ?d = "\<lparr>users = [sampleUser, sampleMember], workouts = sampleWorkouts\<rparr>"
  let ?body = "[(''userId'', JNum 42), (''password'', JStr ''overwritten''), (''username'', JStr ''x'')]"
  have ok: "fst (updateProfile sampleRuntime ?d ?body)
     = Reply 200 (JObj
          [(''id'', JNum 42), (''username'', JStr ''cd@gmail.com''), (''fullName'', JStr ''C D''),
           (''joinedDate'', JStr ''2024-05-01T00:00:00.000Z''),
           (''profile'', JObj [(''age'', JNum 30), (''weight'', JNum 70),
                               (''password'', JStr ''overwritten''), (''username'', JStr ''x'')])])"
    by code_simp
  have us: "users (snd (updateProfile sampleRuntime ?d ?body))
     = [sampleUser,
        [(''id'', JNum 42), (''username'', JStr ''cd@gmail.com''),
         (''password'', JStr ''saltpassword2''), (''fullName'', JStr ''C D''),
         (''joinedDate'', JStr ''2024-05-01T00:00:00.000Z''),
         (''profile'', JObj [(''age'', JNum 30), (''weight'', JNum 70),
                             (''password'', JStr ''overwritten''), (''username'', JStr ''x'')])]]"
    by code_simp
  from updateProfile_frame [OF ok]
  have "workouts (snd (updateProfile sampleRuntime ?d ?body)) = workouts ?d"
    by blast
  then show ?thesis
    using us by simp
qed

subsection \<open>Listing workouts\<close>

text \<open>
  When every date is valid the sort is the stable insertion sort by the negated time.
  Whatever the dates are, a sort whose comparator does not raise permutes the array.
\<close>

lemma insertBy_valid:
  assumes "\<forall>w\<in>set (x # ys). DateOf rt (field w ''date'') = Some (TimeValue (t w))"
  shows "insertBy (compareDates rt) x ys = Some (insort_key (\<lambda>w. - t w) x ys)"
  using assms
proof (induction ys)
  case Nil
  then show ?case by simp
next
  case (Cons y ys)
  then have "insertBy (compareDates rt) x ys = Some (insort_key (\<lambda>w. - t w) x ys)"
    by simp
  moreover have "compareDates rt x y = Some (Fin (of_int (t y - t x)))"
    using Cons.prems by (simp add: compareDates_def)
  ultimately show ?case
    by (auto simp: not_le)
qed

lemma sortBy_valid:
  assumes "\<forall>w\<in>set ws. DateOf rt (field w ''date'') = Some (TimeValue (t w))"
  shows "sortBy (compareDates rt) ws = Some (sort_key (\<lambda>w. - t w) ws)"
  using assms
proof (induction ws)
  case Nil
  then show ?case by simp
next
  case (Cons w ws)
  then have tail: "sortBy (compareDates rt) ws = Some (sort_key (\<lambda>w. - t w) ws)"
    by simp
  have "\<forall>v\<in>set (w # sort_key (\<lambda>w. - t w) ws).
          DateOf rt (field v ''date'') = Some (TimeValue (t v))"
    using Cons.prems by simp
  from insertBy_valid [OF this] tail show ?case
    by simp
qed

lemma sort_key_short: "length ws < 2 \<Longrightarrow> sort_key f ws = ws"
  by (cases ws) (auto simp: length_Suc_conv)

lemma sortByDate_valid:
  assumes "\<forall>w\<in>set ws. DateOf rt (field w ''date'') = Some (TimeValue (t w))"
  shows "sortByDate rt ws = Some (sort_key (\<lambda>w. - t w) ws)"
proof -
  have "list_all (\<lambda>w. isTimeValue (DateOf rt (field w ''date''))) ws"
    using assms by (simp add: list_all_iff)
  then show ?thesis
    using sortBy_valid [OF assms] by (simp add: sortByDate_def sort_key_short)
qed

lemma insertBy_permutes:
  assumes "\<forall>y\<in>set ys. c x y \<noteq> None"
  shows "\<exists>zs. insertBy c x ys = Some zs \<and> mset zs = add_mset x (mset ys)"
  using assms by (induction ys) auto

lemma sortBy_permutes:
  assumes "\<forall>a\<in>set ws. \<forall>b\<in>set ws. c a b \<noteq> None"
  shows "\<exists>ys. sortBy c ws = Some ys \<and> mset ys = mset ws"
  using assms
proof (induction ws)
  case Nil
  then show ?case by simp
next
  case (Cons w ws)
  then obtain ys where ys: "sortBy c ws = Some ys" "mset ys = mset ws"
    by auto
  have "set ys = set ws"
    using ys(2) by (rule mset_eq_setD)
  with Cons.prems have "\<forall>y\<in>set ys. c w y \<noteq> None"
    by simp
  from insertBy_permutes [of ys c w, OF this] ys show ?case
    by auto
qed

lemma compareDates_quiet:
  assumes "DateOf rt (field a ''date'') \<noteq> None" and "DateOf rt (field b ''date'') \<noteq> None"
  shows "compareDates rt a b \<noteq> None"
  using assms by (auto simp: compareDates_def split: option.splits)

lemma isTimeValue_timeOf:
  "isTimeValue (DateOf rt (field w ''date''))
     \<Longrightarrow> DateOf rt (field w ''date'') = Some (TimeValue (timeOf rt w))"
  by (cases "DateOf rt (field w ''date'')" rule: isTimeValue.cases) (auto simp: timeOf_def)

lemma sortByDate_permutes:
  assumes engine: "\<forall>xs. (\<forall>a\<in>set xs. \<forall>b\<in>set xs. compareDates rt a b \<noteq> None) \<longrightarrow>
                     (\<exists>ys. EngineSort rt (compareDates rt) xs = Some ys \<and> mset ys = mset xs)"
    and quiet: "\<forall>w\<in>set ws. DateOf rt (field w ''date'') \<noteq> None"
  shows "\<exists>ys. sortByDate rt ws = Some ys \<and> mset ys = mset ws"
proof -
  have calls: "\<forall>a\<in>set ws. \<forall>b\<in>set ws. compareDates rt a b \<noteq> None"
    using quiet by (simp add: compareDates_quiet)
  consider "length ws < 2"
    | "\<not> length ws < 2" "list_all (\<lambda>w. isTimeValue (DateOf rt (field w ''date''))) ws"
    | "\<not> length ws < 2" "\<not> list_all (\<lambda>w. isTimeValue (DateOf rt (field w ''date''))) ws"
    by blast
  then show ?thesis
  proof cases
    case 1
    then show ?thesis by (simp add: sortByDate_def)
  next
    case 2
    then show ?thesis
      using sortBy_permutes [OF calls] by (simp add: sortByDate_def)
  next
    case 3
    then show ?thesis
      using engine calls by (simp add: sortByDate_def)
  qed
qed

text \<open>
  Claim C5, as stated, fails for a stored document with a date that is no date, which
  add-workout and edit-workout store as they store any other: the comparator answers
  \<^verbatim>\<open>NaN\<close> for each pair with the invalid date, the sort reads that as 0, and with a
  sort that then moves nothing the workouts come back in insertion order, the one of
  January before the one of March.
\<close>

theorem getWorkouts_invalid_date_counterexample:
  "getWorkouts sampleRuntime \<lparr>users = [], workouts = datedWorkouts\<rparr> (Some (JStr ''7''))
     = Reply 200 (JArr (map JObj datedWorkouts))
   \<and> DateOf sampleRuntime (field (datedWorkouts ! 0) ''date'') = Some (TimeValue 1704067200000)
   \<and> DateOf sampleRuntime (field (datedWorkouts ! 1) ''date'') = Some InvalidDate
   \<and> DateOf sampleRuntime (field (datedWorkouts ! 2) ''date'') = Some (TimeValue 1709251200000)
   \<and> (1704067200000 :: int) < 1709251200000"
  by code_simp

text \<open>
  Claim C5, amended. For every stored document and every \<open>userId\<close> of the query that is
  truthy and converts to a number \<open>n\<close>: when no date of the workouts of that user
  raises in the conversion, the response is 200 with an array that holds exactly the
  workouts whose \<open>userId\<close> is \<open>n\<close>, each as often as it is stored, for every engine whose
  sort permutes the array when the comparator does not raise; and when the dates of
  those workouts are all valid (\<open>t\<close> gives their time values), the array is moreover
  ordered by time descending, and the workouts of any one time are in their order of
  insertion.
\<close>

theorem getWorkouts_sorted_stable:
  assumes present: "truthy userId"
    and number: "toNumber rt userId = Some n"
  shows "((\<forall>xs. (\<forall>a\<in>set xs. \<forall>b\<in>set xs. compareDates rt a b \<noteq> None) \<longrightarrow>
             (\<exists>ys. EngineSort rt (compareDates rt) xs = Some ys \<and> mset ys = mset xs))
          \<and> (\<forall>w\<in>set (filter (\<lambda>w. strictEqNum (field w ''userId'') n) (workouts d)).
                DateOf rt (field w ''date'') \<noteq> None)
          \<longrightarrow> (\<exists>ws. getWorkouts rt d userId = Reply 200 (JArr (map JObj ws))
                 \<and> mset ws = mset (filter (\<lambda>w. strictEqNum (field w ''userId'') n) (workouts d))))
       \<and> ((\<forall>w\<in>set (filter (\<lambda>w. strictEqNum (field w ''userId'') n) (workouts d)).
                DateOf rt (field w ''date'') = Some (TimeValue (t w)))
          \<longrightarrow> (\<exists>ws. getWorkouts rt d userId = Reply 200 (JArr (map JObj ws))
                 \<and> mset ws = mset (filter (\<lambda>w. strictEqNum (field w ''userId'') n) (workouts d))
                 \<and> sorted_wrt (\<lambda>a b. t b \<le> t a) ws
                 \<and> (\<forall>x. filter (\<lambda>w. t w = x) ws
                          = filter (\<lambda>w. t w = x)
                              (filter (\<lambda>w. strictEqNum (field w ''userId'') n) (workouts d)))))"
proof -
  let ?sel = "filter (\<lambda>w. strictEqNum (field w ''userId'') n) (workouts d)"
  have run: "getWorkouts rt d userId = Reply 200 (JArr (map JObj ws))"
    if "sortByDate rt ?sel = Some ws" for ws
  proof (cases "workouts d = []")
    case True
    with that have "ws = []" by (simp add: sortByDate_def)
    with True present show ?thesis by (simp add: getWorkouts_def)
  next
    case False
    with present number that show ?thesis by (simp add: getWorkouts_def)
  qed
  have content: "\<exists>ws. getWorkouts rt d userId = Reply 200 (JArr (map JObj ws))
                   \<and> mset ws = mset ?sel"
    if engine: "\<forall>xs. (\<forall>a\<in>set xs. \<forall>b\<in>set xs. compareDates rt a b \<noteq> None) \<longrightarrow>
                  (\<exists>ys. EngineSort rt (compareDates rt) xs = Some ys \<and> mset ys = mset xs)"
      and quiet: "\<forall>w\<in>set ?sel. DateOf rt (field w ''date'') \<noteq> None"
  proof -
    from sortByDate_permutes [OF engine quiet] obtain ys where
      "sortByDate rt ?sel = Some ys" "mset ys = mset ?sel"
      by blast
    with run show ?thesis by blast
  qed
  have ordered: "\<exists>ws. getWorkouts rt d userId = Reply 200 (JArr (map JObj ws))
                   \<and> mset ws = mset ?sel
                   \<and> sorted_wrt (\<lambda>a b. t b \<le> t a) ws
                   \<and> (\<forall>x. filter (\<lambda>w. t w = x) ws = filter (\<lambda>w. t w = x) ?sel)"
    if valid: "\<forall>w\<in>set ?sel. DateOf rt (field w ''date'') = Some (TimeValue (t w))"
  proof -
    let ?ws = "sort_key (\<lambda>w. - t w) ?sel"
    have reply: "getWorkouts rt d userId = Reply 200 (JArr (map JObj ?ws))"
      using run [OF sortByDate_valid [OF valid]] .
    have perm: "mset ?ws = mset ?sel"
      by simp
    have "sorted (map (\<lambda>w. - t w) ?ws)"
      by (rule sorted_sort_key)
    then have desc: "sorted_wrt (\<lambda>a b. t b \<le> t a) ?ws"
      by (simp add: sorted_map)
    have stable: "\<forall>x. filter (\<lambda>w. t w = x) ?ws = filter (\<lambda>w. t w = x) ?sel"
    proof
      fix x
      have "filter (\<lambda>w. - t w = - x) ?ws = filter (\<lambda>w. - t w = - x) ?sel"
        by (rule sort_key_stable)
      then show "filter (\<lambda>w. t w = x) ?ws = filter (\<lambda>w. t w = x) ?sel"
        by simp
    qed
    from reply perm desc stable show ?thesis
      by blast
  qed
  from content ordered show ?thesis
    by blast
qed

theorem getWorkouts_sorted_stable_witness:
  "getWorkouts sampleRuntime \<lparr>users = [sampleUser], workouts = tiedWorkouts\<rparr> (Some (JStr ''7''))
     = Reply 200 (JArr (map JObj
         [tiedWorkouts ! 1, tiedWorkouts ! 4, tiedWorkouts ! 2, tiedWorkouts ! 0]))
   \<and> (\<exists>ws. getWorkouts sampleRuntime \<lparr>users = [sampleUser], workouts = datedWorkouts\<rparr>
              (Some (JStr ''7'')) = Reply 200 (JArr (map JObj ws))
          \<and> mset ws = mset datedWorkouts)"
proof -
  let ?d = "\<lparr>users = [sampleUser], workouts = tiedWorkouts\<rparr>"
  let ?d' = "\<lparr>users = [sampleUser], workouts = datedWorkouts\<rparr>"
  have present: "truthy (Some (JStr ''7''))"
    by simp
  have number: "toNumber sampleRuntime (Some (JStr ''7'')) = Some (Fin 7)"
    by code_simp
  have sel: "filter (\<lambda>w. strictEqNum (field w ''userId'') (Fin 7)) (workouts ?d)
               = [tiedWorkouts ! 0, tiedWorkouts ! 1, tiedWorkouts ! 2, tiedWorkouts ! 4]"
    by code_simp
  have valid: "\<forall>w\<in>set (filter (\<lambda>w. strictEqNum (field w ''userId'') (Fin 7)) (workouts ?d)).
                 DateOf sampleRuntime (field w ''date'') = Some (TimeValue (timeOf sampleRuntime w))"
    unfolding sel
    by (simp add: tiedWorkouts_def sampleWorkouts_def timeOf_def sampleRuntime_def)
  have run: "getWorkouts sampleRuntime ?d (Some (JStr ''7''))
     = Reply 200 (JArr (map JObj
         [tiedWorkouts ! 1, tiedWorkouts ! 4, tiedWorkouts ! 2, tiedWorkouts ! 0]))"
    by code_simp
  have engine: "\<forall>xs. (\<forall>a\<in>set xs. \<forall>b\<in>set xs. compareDates sampleRuntime a b \<noteq> None) \<longrightarrow>
                  (\<exists>ys. EngineSort sampleRuntime (compareDates sampleRuntime) xs = Some ys
                        \<and> mset ys = mset xs)"
    using sortBy_permutes [of _ "compareDates sampleRuntime"] by (simp add: sampleRuntime_def)
  have sel': "filter (\<lambda>w. strictEqNum (field w ''userId'') (Fin 7)) (workouts ?d') = datedWorkouts"
    by code_simp
  have quiet: "\<forall>w\<in>set (filter (\<lambda>w. strictEqNum (field w ''userId'') (Fin 7)) (workouts ?d')).
                 DateOf sampleRuntime (field w ''date'') \<noteq> None"
    unfolding sel' by (simp add: datedWorkouts_def sampleRuntime_def)
  from getWorkouts_sorted_stable [OF present number, of ?d "timeOf sampleRuntime"] valid
  obtain ws where
    "getWorkouts sampleRuntime ?d (Some (JStr ''7'')) = Reply 200 (JArr (map JObj ws))"
    by blast
  moreover have "\<exists>ws. getWorkouts sampleRuntime ?d' (Some (JStr ''7'')) = Reply 200 (JArr (map JObj ws))
          \<and> mset ws = mset datedWorkouts"
    using getWorkouts_sorted_stable [OF present number, of ?d'] engine quiet
    unfolding sel' by blast
  ultimately show ?thesis
    using run by simp
qed

end
